theory Spec2Isabelle
  imports Complex_Main
begin

section \<open>The zoo bus example: a Concert model handed to CPLEX\<close>

text \<open>
  The program \<^verbatim>\<open>src/cplex/cpp/zoobuskids.cpp\<close> builds a small integer program with the
  Concert classes, asks \<^verbatim>\<open>IloCplex\<close> to solve it and prints what it reads back. The
  Concert objects it creates are embedded as data, the statements of \<^verbatim>\<open>main\<close> as a
  function on an explicit world (the two output streams, the environment, a call counter),
  and the CPLEX library, which is not part of the repository, as a parameter: a record of the
  functions \<^verbatim>\<open>main\<close> calls, each of which returns or throws an \<^verbatim>\<open>IloException\<close>.

  \<^verbatim>\<open>IloNum\<close> is a C++ double. It is modelled by \<^typ>\<open>real\<close>; the constants of the program
  (0, 30, 40, 300, 400, 500) and the integer solutions of its model are exactly representable,
  rounding is not modelled.
\<close>

subsection \<open>Concert modelling objects\<close>

text \<open>A bound of a variable or of a range: a number, or \<^verbatim>\<open>IloInfinity\<close> with either sign.\<close>

datatype IloBound = MinusIloInfinity | Finite real | IloInfinity

datatype IloVarType = ILOINT | ILOFLOAT

record IloNumVar =
  var_lb :: IloBound
  var_ub :: IloBound
  var_type :: IloVarType
  var_name :: string

text \<open>\<^verbatim>\<open>IloIntVar(env, lb, ub, name)\<close>\<close>

definition IloIntVar :: "IloBound \<Rightarrow> IloBound \<Rightarrow> string \<Rightarrow> IloNumVar" where
  "IloIntVar lb ub name = \<lparr>var_lb = lb, var_ub = ub, var_type = ILOINT, var_name = name\<rparr>"

text \<open>A linear expression: coefficient-variable terms in the order written, and a constant.\<close>

record IloExpr =
  expr_terms :: "(real \<times> IloNumVar) list"
  expr_const :: real

text \<open>\<^verbatim>\<open>c * x\<close> for a number and a variable, and \<^verbatim>\<open>e1 + e2\<close>.\<close>

definition times_var :: "real \<Rightarrow> IloNumVar \<Rightarrow> IloExpr" where
  "times_var c x = \<lparr>expr_terms = [(c, x)], expr_const = 0\<rparr>"

definition plus_expr :: "IloExpr \<Rightarrow> IloExpr \<Rightarrow> IloExpr" where
  "plus_expr e1 e2 =
     \<lparr>expr_terms = expr_terms e1 @ expr_terms e2, expr_const = expr_const e1 + expr_const e2\<rparr>"

datatype IloSense = Minimize | Maximize

datatype IloExtractable =
    IloObjective IloSense IloExpr
  | IloRange IloBound IloExpr IloBound

text \<open>\<^verbatim>\<open>IloMinimize(env, e)\<close>, and \<^verbatim>\<open>e >= r\<close>, which is the range \<open>r \<le> e \<le> IloInfinity\<close>.\<close>

definition IloMinimize :: "IloExpr \<Rightarrow> IloExtractable" where
  "IloMinimize e = IloObjective Minimize e"

definition ge_expr :: "IloExpr \<Rightarrow> real \<Rightarrow> IloExtractable" where
  "ge_expr e r = IloRange (Finite r) e IloInfinity"

text \<open>A model is the sequence of what was added to it; \<^verbatim>\<open>model.add(x)\<close> appends.\<close>

type_synonym IloModel = "IloExtractable list"

definition model_add :: "IloModel \<Rightarrow> IloExtractable \<Rightarrow> IloModel" where
  "model_add m x = m @ [x]"

subsection \<open>The model the program builds (lines 16 to 37)\<close>

definition costBus40 :: real where
  "costBus40 = 500"

definition costBus30 :: real where
  "costBus30 = 400"

definition nbBus40 :: IloNumVar where
  "nbBus40 = IloIntVar (Finite 0) IloInfinity ''nbBus40''"

definition nbBus30 :: IloNumVar where
  "nbBus30 = IloIntVar (Finite 0) IloInfinity ''nbBus30''"

definition cost :: IloExpr where
  "cost = plus_expr (times_var costBus40 nbBus40) (times_var costBus30 nbBus30)"

text \<open>
  The statements between \<^verbatim>\<open>IloModel model(env)\<close> and the second \<^verbatim>\<open>model.add\<close>, with
  the local \<^verbatim>\<open>nbKids\<close> as the argument; \<^verbatim>\<open>main\<close> fixes it to 300.
\<close>

definition build_model :: "int \<Rightarrow> IloModel" where
  "build_model kids =
     (let model = [];
          model = model_add model (IloMinimize cost);
          model = model_add model
                    (ge_expr (plus_expr (times_var 40 nbBus40) (times_var 30 nbBus30))
                       (real_of_int kids))
      in model)"

definition nbKids :: int where
  "nbKids = 300"

subsection \<open>What a model means\<close>

text \<open>
  An assignment gives every variable a number. It is feasible for a model when every
  variable of the model lies within its bounds, is integral if its type is \<^verbatim>\<open>ILOINT\<close>,
  and every range holds; it is optimal when no feasible assignment has a better objective.
\<close>

type_synonym assignment = "IloNumVar \<Rightarrow> real"

definition expr_value :: "assignment \<Rightarrow> IloExpr \<Rightarrow> real" where
  "expr_value \<sigma> e = expr_const e + sum_list (map (\<lambda>(c, x). c * \<sigma> x) (expr_terms e))"

fun bound_le :: "IloBound \<Rightarrow> real \<Rightarrow> bool" where
  "bound_le MinusIloInfinity x = True"
| "bound_le (Finite r) x = (r \<le> x)"
| "bound_le IloInfinity x = False"

fun le_bound :: "real \<Rightarrow> IloBound \<Rightarrow> bool" where
  "le_bound x MinusIloInfinity = False"
| "le_bound x (Finite r) = (x \<le> r)"
| "le_bound x IloInfinity = True"

fun integral :: "IloVarType \<Rightarrow> real \<Rightarrow> bool" where
  "integral ILOINT x = (real_of_int \<lfloor>x\<rfloor> = x)"
| "integral ILOFLOAT x = True"

definition in_domain :: "IloNumVar \<Rightarrow> real \<Rightarrow> bool" where
  "in_domain v x = (bound_le (var_lb v) x \<and> le_bound x (var_ub v) \<and> integral (var_type v) x)"

definition expr_vars :: "IloExpr \<Rightarrow> IloNumVar list" where
  "expr_vars e = map snd (expr_terms e)"

fun extractable_expr :: "IloExtractable \<Rightarrow> IloExpr" where
  "extractable_expr (IloObjective s e) = e"
| "extractable_expr (IloRange lb e ub) = e"

definition model_vars :: "IloModel \<Rightarrow> IloNumVar list" where
  "model_vars m = remdups (concat (map (\<lambda>x. expr_vars (extractable_expr x)) m))"

fun holds :: "assignment \<Rightarrow> IloExtractable \<Rightarrow> bool" where
  "holds \<sigma> (IloObjective s e) = True"
| "holds \<sigma> (IloRange lb e ub) = (bound_le lb (expr_value \<sigma> e) \<and> le_bound (expr_value \<sigma> e) ub)"

definition feasible :: "IloModel \<Rightarrow> assignment \<Rightarrow> bool" where
  "feasible m \<sigma> = (list_all (\<lambda>v. in_domain v (\<sigma> v)) (model_vars m) \<and> list_all (holds \<sigma>) m)"

fun model_objective :: "IloModel \<Rightarrow> (IloSense \<times> IloExpr) option" where
  "model_objective [] = None"
| "model_objective (IloObjective s e # m) = Some (s, e)"
| "model_objective (IloRange lb e ub # m) = model_objective m"

fun no_worse :: "IloSense \<Rightarrow> real \<Rightarrow> real \<Rightarrow> bool" where
  "no_worse Minimize x y = (x \<le> y)"
| "no_worse Maximize x y = (y \<le> x)"

definition optimal :: "IloModel \<Rightarrow> assignment \<Rightarrow> bool" where
  "optimal m \<sigma> =
     (feasible m \<sigma> \<and>
      (case model_objective m of
         None \<Rightarrow> True
       | Some (s, e) \<Rightarrow> \<forall>\<sigma>'. feasible m \<sigma>' \<longrightarrow> no_worse s (expr_value \<sigma> e) (expr_value \<sigma>' e)))"

text \<open>The assignment that gives the two bus variables the values \<open>a\<close> and \<open>b\<close>.\<close>

definition buses :: "real \<Rightarrow> real \<Rightarrow> assignment" where
  "buses a b = (\<lambda>v. if v = nbBus40 then a else if v = nbBus30 then b else 0)"

subsection \<open>The CPLEX library as a parameter\<close>

text \<open>
  The library is given by what its calls do. \<open>'c\<close> is the state of the \<^verbatim>\<open>IloCplex\<close>
  object. Each call returns (\<open>Inr\<close>) or throws an \<^verbatim>\<open>IloException\<close> (\<open>Inl\<close>):
  \<^item> \<open>concert_throws\<close>: the exception, if any, that the Concert constructors and operators
    of lines 16 to 37 throw; nothing is printed and the solver is not touched on those lines,
    so which of them throws cannot be observed;
  \<^item> \<open>IloCplex_new\<close>: \<^verbatim>\<open>IloCplex cplex(model)\<close>, which extracts the model;
  \<^item> \<open>cplex_solve\<close>: \<^verbatim>\<open>cplex.solve()\<close>, returning its boolean and the new state;
  \<^item> \<open>cplex_getValue\<close>, \<open>cplex_getValue_expr\<close>: \<^verbatim>\<open>cplex.getValue\<close> of a variable and
    of an expression.
\<close>

datatype IloException = IloException string

record 'c cplex_library =
  concert_throws :: "IloException option"
  IloCplex_new :: "IloModel \<Rightarrow> IloException + 'c"
  cplex_solve :: "'c \<Rightarrow> IloException + (bool \<times> 'c)"
  cplex_getValue :: "'c \<Rightarrow> IloNumVar \<Rightarrow> IloException + real"
  cplex_getValue_expr :: "'c \<Rightarrow> IloExpr \<Rightarrow> IloException + real"

subsection \<open>The program\<close>

text \<open>
  What is inserted into a stream: a string literal, a number, an exception, \<^verbatim>\<open>endl\<close>.
  The text a number is formatted to is not modelled.
\<close>

datatype out_item = Str string | Num real | Exc IloException | Endl

record world =
  cout :: "out_item list"
  cerr :: "out_item list"
  env_ended :: bool
  solve_calls :: nat

text \<open>The world after line 14: \<^verbatim>\<open>IloEnv env\<close> has been created, nothing is written yet.\<close>

definition init_world :: world where
  "init_world = \<lparr>cout = [], cerr = [], env_ended = False, solve_calls = 0\<rparr>"

definition put :: "out_item list \<Rightarrow> world \<Rightarrow> world" where
  "put xs w = w\<lparr>cout := cout w @ xs\<rparr>"

text \<open>
  Lines 42 to 44. In \<^verbatim>\<open>cout << "Use " << cplex.getValue(x) << ...\<close> the literal is
  inserted before \<^verbatim>\<open>getValue\<close> is called (the order C++17 fixes for \<^verbatim>\<open><<\<close>).
\<close>

definition report :: "'c cplex_library \<Rightarrow> 'c \<Rightarrow> world \<Rightarrow> (IloException + unit) \<times> world" where
  "report lib cplex w =
     (let w = put [Str ''Use ''] w in
      case cplex_getValue lib cplex nbBus40 of
        Inl e \<Rightarrow> (Inl e, w)
      | Inr a \<Rightarrow>
          let w = put [Num a, Str '' buses of type 40'', Endl] w;
              w = put [Str ''Use ''] w in
          (case cplex_getValue lib cplex nbBus30 of
             Inl e \<Rightarrow> (Inl e, w)
           | Inr b \<Rightarrow>
               let w = put [Num b, Str '' buses of type 30'', Endl] w;
                   w = put [Str ''Total cost: ''] w in
               (case cplex_getValue_expr lib cplex cost of
                  Inl e \<Rightarrow> (Inl e, w)
                | Inr c \<Rightarrow> (Inr (), put [Num c, Endl] w))))"

text \<open>
  The body of the \<^verbatim>\<open>try\<close> block. The boolean that \<^verbatim>\<open>cplex.solve()\<close> returns is
  dropped, as in the source; \<^verbatim>\<open>env.end()\<close> is its last statement.
\<close>

definition try_block :: "'c cplex_library \<Rightarrow> world \<Rightarrow> (IloException + unit) \<times> world" where
  "try_block lib w =
     (case concert_throws lib of
        Some e \<Rightarrow> (Inl e, w)
      | None \<Rightarrow>
          (case IloCplex_new lib (build_model nbKids) of
             Inl e \<Rightarrow> (Inl e, w)
           | Inr cplex \<Rightarrow>
               let w = w\<lparr>solve_calls := Suc (solve_calls w)\<rparr> in
               (case cplex_solve lib cplex of
                  Inl e \<Rightarrow> (Inl e, w)
                | Inr (solved, cplex) \<Rightarrow>
                    (case report lib cplex w of
                       (Inl e, w) \<Rightarrow> (Inl e, w)
                     | (Inr u, w) \<Rightarrow> (Inr (), w\<lparr>env_ended := True\<rparr>)))))"

text \<open>
  How the process ends: \<^verbatim>\<open>return n\<close> from \<^verbatim>\<open>main\<close>, or \<^verbatim>\<open>std::terminate\<close> because
  an exception left \<^verbatim>\<open>main\<close> (the handler's \<^verbatim>\<open>throw;\<close>), which aborts the process.
\<close>

datatype exit_status = Exit int | Terminate

definition main :: "'c cplex_library \<Rightarrow> exit_status \<times> world" where
  "main lib =
     (case try_block lib init_world of
        (Inl e, w) \<Rightarrow> (Terminate, w\<lparr>cerr := cerr w @ [Str ''exception: '', Exc e, Endl]\<rparr>)
      | (Inr u, w) \<Rightarrow> (Exit 0, w))"

text \<open>The three lines of a run that reaches line 44.\<close>

definition result_lines :: "real \<Rightarrow> real \<Rightarrow> real \<Rightarrow> out_item list" where
  "result_lines a b c =
     [Str ''Use '', Num a, Str '' buses of type 40'', Endl,
      Str ''Use '', Num b, Str '' buses of type 30'', Endl,
      Str ''Total cost: '', Num c, Endl]"

subsection \<open>What is said about the library\<close>

text \<open>
  An exception \<open>e\<close> is raised in a run: by the Concert calls, by the constructor of
  \<^verbatim>\<open>IloCplex\<close>, by \<^verbatim>\<open>solve\<close> or by one of the three \<^verbatim>\<open>getValue\<close> calls, each reached
  only when the calls before it returned.
\<close>

inductive raised :: "'c cplex_library \<Rightarrow> IloException \<Rightarrow> bool" for lib :: "'c cplex_library" where
  in_concert: "concert_throws lib = Some e \<Longrightarrow> raised lib e"
| in_constructor:
    "concert_throws lib = None \<Longrightarrow> IloCplex_new lib (build_model nbKids) = Inl e \<Longrightarrow> raised lib e"
| in_solve:
    "concert_throws lib = None \<Longrightarrow> IloCplex_new lib (build_model nbKids) = Inr c \<Longrightarrow>
     cplex_solve lib c = Inl e \<Longrightarrow> raised lib e"
| in_getValue40:
    "concert_throws lib = None \<Longrightarrow> IloCplex_new lib (build_model nbKids) = Inr c \<Longrightarrow>
     cplex_solve lib c = Inr (ok, c') \<Longrightarrow> cplex_getValue lib c' nbBus40 = Inl e \<Longrightarrow> raised lib e"
| in_getValue30:
    "concert_throws lib = None \<Longrightarrow> IloCplex_new lib (build_model nbKids) = Inr c \<Longrightarrow>
     cplex_solve lib c = Inr (ok, c') \<Longrightarrow> cplex_getValue lib c' nbBus40 = Inr a \<Longrightarrow>
     cplex_getValue lib c' nbBus30 = Inl e \<Longrightarrow> raised lib e"
| in_getValue_cost:
    "concert_throws lib = None \<Longrightarrow> IloCplex_new lib (build_model nbKids) = Inr c \<Longrightarrow>
     cplex_solve lib c = Inr (ok, c') \<Longrightarrow> cplex_getValue lib c' nbBus40 = Inr a \<Longrightarrow>
     cplex_getValue lib c' nbBus30 = Inr b \<Longrightarrow> cplex_getValue_expr lib c' cost = Inl e \<Longrightarrow>
     raised lib e"

text \<open>\<^verbatim>\<open>solve\<close> was reached in the run and returned true.\<close>

definition solve_succeeded :: "'c cplex_library \<Rightarrow> bool" where
  "solve_succeeded lib =
     (concert_throws lib = None \<and>
      (\<exists>c c'. IloCplex_new lib (build_model nbKids) = Inr c \<and> cplex_solve lib c = Inr (True, c')))"


definition reads_back :: "'c cplex_library \<Rightarrow> 'c \<Rightarrow> IloModel \<Rightarrow> assignment \<Rightarrow> bool" where
  "reads_back lib c m \<sigma> =
     ((\<forall>v \<in> set (model_vars m). cplex_getValue lib c v = Inr (\<sigma> v)) \<and>
      (\<forall>e. set (expr_vars e) \<subseteq> set (model_vars m) \<longrightarrow>
           cplex_getValue_expr lib c e = Inr (expr_value \<sigma> e)))"


definition correct_solver :: "'c cplex_library \<Rightarrow> bool" where
  "correct_solver lib =
     (\<forall>m c c'. IloCplex_new lib m = Inr c \<and> cplex_solve lib c = Inr (True, c') \<longrightarrow>
        (\<exists>\<sigma>. optimal m \<sigma> \<and> reads_back lib c' m \<sigma>))"

subsection \<open>Libraries to run the program with\<close>

text \<open>
  A solver that knows the answer for the program's model only: it holds the model it
  extracted, \<^verbatim>\<open>solve\<close> returns true on that model alone, and \<^verbatim>\<open>getValue\<close> reads six
  buses of 40 seats and two of 30.
\<close>

definition no_solution :: IloException where
  "no_solution = IloException ''CPLEX Error  1217: No solution exists.''"

definition table_cplex :: "IloModel cplex_library" where
  "table_cplex =
     \<lparr>concert_throws = None,
      IloCplex_new = (\<lambda>m. Inr m),
      cplex_solve = (\<lambda>m. Inr (m = build_model 300, m)),
      cplex_getValue = (\<lambda>m v. if m = build_model 300 then Inr (buses 6 2 v) else Inl no_solution),
      cplex_getValue_expr =
        (\<lambda>m e. if m = build_model 300 then Inr (expr_value (buses 6 2) e) else Inl no_solution)\<rparr>"



text \<open>A solver that finds no solution: \<^verbatim>\<open>solve\<close> returns false and \<^verbatim>\<open>getValue\<close> throws.\<close>

definition failing_cplex :: "unit cplex_library" where
  "failing_cplex =
     \<lparr>concert_throws = None,
      IloCplex_new = (\<lambda>m. Inr ()),
      cplex_solve = (\<lambda>c. Inr (False, c)),
      cplex_getValue = (\<lambda>c v. Inl no_solution),
      cplex_getValue_expr = (\<lambda>c e. Inl no_solution)\<rparr>"

text \<open>A library whose \<^verbatim>\<open>solve\<close> throws.\<close>

definition out_of_memory :: IloException where
  "out_of_memory = IloException ''CPLEX Error  1001: Out of memory.''"

definition throwing_cplex :: "unit cplex_library" where
  "throwing_cplex =
     \<lparr>concert_throws = None,
      IloCplex_new = (\<lambda>m. Inr ()),
      cplex_solve = (\<lambda>c. Inl out_of_memory),
      cplex_getValue = (\<lambda>c v. Inl no_solution),
      cplex_getValue_expr = (\<lambda>c e. Inl no_solution)\<rparr>"

text \<open>
  A library whose \<^verbatim>\<open>solve\<close> returns false and whose \<^verbatim>\<open>getValue\<close> returns 0
  all the same.
\<close>

definition lying_cplex :: "unit cplex_library" where
  "lying_cplex =
     \<lparr>concert_throws = None,
      IloCplex_new = (\<lambda>m. Inr ()),
      cplex_solve = (\<lambda>c. Inr (False, c)),
      cplex_getValue = (\<lambda>c v. Inr 0),
      cplex_getValue_expr = (\<lambda>c e. Inr 0)\<rparr>"

section \<open>The optimum of the model\<close>

subsection \<open>Arithmetic of the fixed instance\<close>

lemma cost_lower_bound:
  fixes a b :: nat
  assumes "300 \<le> 40 * int a + 30 * int b"
  shows "3800 \<le> 500 * a + 400 * b"
proof -
  from assms have "30 \<le> 4 * a + 3 * b" by linarith
  then have "38 \<le> 5 * a + 4 * b" by linarith
  then show ?thesis by linarith
qed

lemma cost_minimiser:
  fixes a b :: nat
  assumes "300 \<le> 40 * int a + 30 * int b" and "500 * a + 400 * b \<le> 3800"
  shows "a = 6 \<and> b = 2"
proof -
  from assms(1) have cap: "30 \<le> 4 * a + 3 * b" by linarith
  from assms(2) have cst: "5 * a + 4 * b \<le> 38" by linarith
  from cap cst have "a + b \<le> 8" by linarith
  moreover from cap have "8 \<le> a + b" by linarith
  ultimately have "a + b = 8" by linarith
  with cap cst show ?thesis by linarith
qed

lemma capacity_int_nat:
  fixes a b :: nat
  shows "nbKids \<le> 40 * int a + 30 * int b \<longleftrightarrow> 300 \<le> 40 * a + 30 * b"
proof -
  have "(300::int) \<le> int n \<longleftrightarrow> 300 \<le> n" for n :: nat by simp
  moreover have "40 * int a + 30 * int b = int (40 * a + 30 * b)" by simp
  ultimately show ?thesis by (simp only: nbKids_def)
qed

subsection \<open>Feasible and optimal assignments of the model\<close>

lemma nbBus_distinct: "nbBus40 \<noteq> nbBus30" "nbBus30 \<noteq> nbBus40"
  by (simp_all add: nbBus40_def nbBus30_def IloIntVar_def)

lemma model_vars_build: "model_vars (build_model k) = [nbBus40, nbBus30]"
  by (simp add: model_vars_def build_model_def model_add_def IloMinimize_def ge_expr_def
      cost_def plus_expr_def times_var_def expr_vars_def nbBus_distinct)

lemma expr_value_cost: "expr_value \<sigma> cost = 500 * \<sigma> nbBus40 + 400 * \<sigma> nbBus30"
  by (simp add: expr_value_def cost_def plus_expr_def times_var_def costBus40_def costBus30_def)

lemma nonneg_integral_iff:
  fixes x :: real
  shows "0 \<le> x \<and> real_of_int \<lfloor>x\<rfloor> = x \<longleftrightarrow> (\<exists>n::nat. x = real n)"
proof
  assume h: "0 \<le> x \<and> real_of_int \<lfloor>x\<rfloor> = x"
  then have nonneg: "0 \<le> x" and int: "real_of_int \<lfloor>x\<rfloor> = x" by blast+
  from nonneg have "0 \<le> \<lfloor>x\<rfloor>" by simp
  then have "real (nat \<lfloor>x\<rfloor>) = real_of_int \<lfloor>x\<rfloor>" by simp
  then have "real (nat \<lfloor>x\<rfloor>) = x" using int by (rule trans)
  then have "x = real (nat \<lfloor>x\<rfloor>)" by (rule sym)
  then show "\<exists>n::nat. x = real n" ..
next
  assume "\<exists>n::nat. x = real n"
  then obtain n :: nat where "x = real n" ..
  then show "0 \<le> x \<and> real_of_int \<lfloor>x\<rfloor> = x" by simp
qed

lemma in_domain_nbBus40: "in_domain nbBus40 x \<longleftrightarrow> (\<exists>n::nat. x = real n)"
  using nonneg_integral_iff [of x] by (simp add: in_domain_def nbBus40_def IloIntVar_def)

lemma in_domain_nbBus30: "in_domain nbBus30 x \<longleftrightarrow> (\<exists>n::nat. x = real n)"
  using nonneg_integral_iff [of x] by (simp add: in_domain_def nbBus30_def IloIntVar_def)

lemma holds_build_model:
  "list_all (holds \<sigma>) (build_model k) \<longleftrightarrow> real_of_int k \<le> 40 * \<sigma> nbBus40 + 30 * \<sigma> nbBus30"
  by (simp add: build_model_def model_add_def IloMinimize_def ge_expr_def
      plus_expr_def times_var_def expr_value_def)

lemma capacity_real_int:
  fixes a b :: nat
  shows "real_of_int k \<le> 40 * real a + 30 * real b \<longleftrightarrow> k \<le> 40 * int a + 30 * int b"
proof -
  have "40 * real a + 30 * real b = real_of_int (40 * int a + 30 * int b)" by simp
  then show ?thesis by (simp only: of_int_le_iff)
qed

lemma feasible_build_model:
  "feasible (build_model k) \<sigma> \<longleftrightarrow>
     (\<exists>a b::nat. \<sigma> nbBus40 = real a \<and> \<sigma> nbBus30 = real b \<and> k \<le> 40 * int a + 30 * int b)"
proof
  assume "feasible (build_model k) \<sigma>"
  then obtain a b :: nat where ab: "\<sigma> nbBus40 = real a" "\<sigma> nbBus30 = real b"
    and le: "real_of_int k \<le> 40 * \<sigma> nbBus40 + 30 * \<sigma> nbBus30"
    unfolding feasible_def model_vars_build holds_build_model
    by (auto simp add: in_domain_nbBus40 in_domain_nbBus30)
  from le have "k \<le> 40 * int a + 30 * int b"
    unfolding ab capacity_real_int .
  with ab show "\<exists>a b::nat. \<sigma> nbBus40 = real a \<and> \<sigma> nbBus30 = real b \<and> k \<le> 40 * int a + 30 * int b"
    by blast
next
  assume "\<exists>a b::nat. \<sigma> nbBus40 = real a \<and> \<sigma> nbBus30 = real b \<and> k \<le> 40 * int a + 30 * int b"
  then obtain a b :: nat where ab: "\<sigma> nbBus40 = real a" "\<sigma> nbBus30 = real b"
    and le: "k \<le> 40 * int a + 30 * int b" by blast
  from le have "real_of_int k \<le> 40 * \<sigma> nbBus40 + 30 * \<sigma> nbBus30"
    unfolding ab capacity_real_int .
  with ab show "feasible (build_model k) \<sigma>"
    unfolding feasible_def model_vars_build holds_build_model
    by (auto simp add: in_domain_nbBus40 in_domain_nbBus30)
qed

lemma model_objective_build: "model_objective (build_model k) = Some (Minimize, cost)"
  by (simp add: build_model_def model_add_def IloMinimize_def)

lemma buses_apply: "buses a b nbBus40 = a" "buses a b nbBus30 = b"
  by (simp_all add: buses_def nbBus_distinct)

lemma cost_real_nat:
  fixes a b a' b' :: nat
  shows "500 * real a + 400 * real b \<le> 500 * real a' + 400 * real b' \<longleftrightarrow>
         500 * a + 400 * b \<le> 500 * a' + 400 * b'"
proof -
  have "500 * real a + 400 * real b = real (500 * a + 400 * b)"
    and "500 * real a' + 400 * real b' = real (500 * a' + 400 * b')" by simp_all
  then show ?thesis by (simp only: of_nat_le_iff)
qed

lemma optimal_build_model:
  "optimal (build_model k) \<sigma> \<longleftrightarrow>
     (\<exists>a b::nat. \<sigma> nbBus40 = real a \<and> \<sigma> nbBus30 = real b \<and> k \<le> 40 * int a + 30 * int b \<and>
        (\<forall>a' b'::nat. k \<le> 40 * int a' + 30 * int b' \<longrightarrow> 500 * a + 400 * b \<le> 500 * a' + 400 * b'))"
  (is "?L \<longleftrightarrow> ?R")
proof
  assume L: ?L
  then have "feasible (build_model k) \<sigma>" by (simp add: optimal_def)
  then obtain a b :: nat where ab: "\<sigma> nbBus40 = real a" "\<sigma> nbBus30 = real b"
    and le: "k \<le> 40 * int a + 30 * int b"
    unfolding feasible_build_model by blast
  have "500 * a + 400 * b \<le> 500 * a' + 400 * b'" if "k \<le> 40 * int a' + 30 * int b'" for a' b' :: nat
  proof -
    have f: "feasible (build_model k) (buses (real a') (real b'))"
      unfolding feasible_build_model buses_apply using that by blast
    from L have "expr_value \<sigma> cost \<le> expr_value (buses (real a') (real b')) cost"
      using f by (simp add: optimal_def model_objective_build)
    then show ?thesis
      unfolding expr_value_cost ab buses_apply cost_real_nat .
  qed
  with ab le show ?R by blast
next
  assume ?R
  then obtain a b :: nat where ab: "\<sigma> nbBus40 = real a" "\<sigma> nbBus30 = real b"
    and le: "k \<le> 40 * int a + 30 * int b"
    and min: "\<And>a' b'::nat. k \<le> 40 * int a' + 30 * int b' \<Longrightarrow> 500 * a + 400 * b \<le> 500 * a' + 400 * b'"
    by blast
  have f: "feasible (build_model k) \<sigma>"
    unfolding feasible_build_model using ab le by blast
  have "expr_value \<sigma> cost \<le> expr_value \<sigma>' cost" if "feasible (build_model k) \<sigma>'" for \<sigma>'
  proof -
    from that obtain a' b' :: nat where ab': "\<sigma>' nbBus40 = real a'" "\<sigma>' nbBus30 = real b'"
      and le': "k \<le> 40 * int a' + 30 * int b'"
      unfolding feasible_build_model by blast
    from min [OF le'] show ?thesis
      unfolding expr_value_cost ab ab' cost_real_nat .
  qed
  with f show ?L by (simp add: optimal_def model_objective_build)
qed

lemma optimal_300: "optimal (build_model 300) \<sigma> \<longleftrightarrow> \<sigma> nbBus40 = 6 \<and> \<sigma> nbBus30 = 2"
proof
  assume "optimal (build_model 300) \<sigma>"
  then obtain a b :: nat where ab: "\<sigma> nbBus40 = real a" "\<sigma> nbBus30 = real b"
    and le: "300 \<le> 40 * int a + 30 * int b"
    and min: "\<And>a' b'::nat. 300 \<le> 40 * int a' + 30 * int b' \<Longrightarrow> 500 * a + 400 * b \<le> 500 * a' + 400 * b'"
    unfolding optimal_build_model by blast
  from min [of 6 2] have "500 * a + 400 * b \<le> 3800" by simp
  with le have "a = 6 \<and> b = 2" by (rule cost_minimiser)
  with ab show "\<sigma> nbBus40 = 6 \<and> \<sigma> nbBus30 = 2" by simp
next
  assume "\<sigma> nbBus40 = 6 \<and> \<sigma> nbBus30 = 2"
  then have ab: "\<sigma> nbBus40 = real 6" "\<sigma> nbBus30 = real 2" by simp_all
  have "500 * 6 + 400 * 2 \<le> 500 * a' + 400 * b'" if "300 \<le> 40 * int a' + 30 * int b'" for a' b' :: nat
    using cost_lower_bound [OF that] by simp
  moreover have "(300::int) \<le> 40 * int 6 + 30 * int 2" by simp
  ultimately show "optimal (build_model 300) \<sigma>"
    unfolding optimal_build_model using ab by blast
qed

lemma optimal_0: "optimal (build_model 0) \<sigma> \<longleftrightarrow> \<sigma> nbBus40 = 0 \<and> \<sigma> nbBus30 = 0"
proof
  assume "optimal (build_model 0) \<sigma>"
  then obtain a b :: nat where ab: "\<sigma> nbBus40 = real a" "\<sigma> nbBus30 = real b"
    and min: "\<And>a' b'::nat. 0 \<le> 40 * int a' + 30 * int b' \<Longrightarrow> 500 * a + 400 * b \<le> 500 * a' + 400 * b'"
    unfolding optimal_build_model by blast
  from min [of 0 0] have "a = 0 \<and> b = 0" by simp
  with ab show "\<sigma> nbBus40 = 0 \<and> \<sigma> nbBus30 = 0" by simp
next
  assume "\<sigma> nbBus40 = 0 \<and> \<sigma> nbBus30 = 0"
  then have ab: "\<sigma> nbBus40 = real 0" "\<sigma> nbBus30 = real 0" by simp_all
  have "(0::int) \<le> 40 * int 0 + 30 * int 0" by simp
  moreover have "500 * 0 + 400 * 0 \<le> 500 * a' + 400 * b'" for a' b' :: nat by simp
  ultimately show "optimal (build_model 0) \<sigma>"
    unfolding optimal_build_model using ab by blast
qed

section \<open>The runs of the program\<close>

lemma main_success:
  assumes "fst (main lib) = Exit 0"
  shows "\<exists>c ok c' a b t. concert_throws lib = None \<and> IloCplex_new lib (build_model nbKids) = Inr c \<and>
     cplex_solve lib c = Inr (ok, c') \<and> cplex_getValue lib c' nbBus40 = Inr a \<and>
     cplex_getValue lib c' nbBus30 = Inr b \<and> cplex_getValue_expr lib c' cost = Inr t \<and>
     main lib = (Exit 0, \<lparr>cout = result_lines a b t, cerr = [], env_ended = True, solve_calls = 1\<rparr>)"
  using assms
  by (auto simp add: main_def try_block_def report_def put_def init_world_def result_lines_def Let_def
      split: option.splits sum.splits prod.splits)

lemma main_raised:
  assumes "raised lib e"
  shows "fst (main lib) = Terminate \<and> cerr (snd (main lib)) = [Str ''exception: '', Exc e, Endl]
    \<and> cout (snd (main lib)) = cout (snd (try_block lib init_world))
    \<and> solve_calls (snd (main lib)) \<le> 1 \<and> \<not> env_ended (snd (main lib))"
  using assms
  by cases (simp_all add: main_def try_block_def report_def put_def init_world_def)

lemma main_cases: "fst (main lib) = Exit 0 \<or> (\<exists>e. raised lib e)"
proof (cases "concert_throws lib")
  case (Some e)
  then show ?thesis by (blast intro: in_concert)
next
  case None
  show ?thesis
  proof (cases "IloCplex_new lib (build_model nbKids)")
    case (Inl e)
    with None show ?thesis by (blast intro: in_constructor)
  next
    case new: (Inr c)
    show ?thesis
    proof (cases "cplex_solve lib c")
      case (Inl e)
      with None new show ?thesis by (blast intro: in_solve)
    next
      case (Inr r)
      then obtain ok c' where solve: "cplex_solve lib c = Inr (ok, c')" by (cases r) simp
      show ?thesis
      proof (cases "cplex_getValue lib c' nbBus40")
        case (Inl e)
        with None new solve show ?thesis by (blast intro: in_getValue40)
      next
        case a: (Inr a)
        show ?thesis
        proof (cases "cplex_getValue lib c' nbBus30")
          case (Inl e)
          with None new solve a show ?thesis by (blast intro: in_getValue30)
        next
          case b: (Inr b)
          show ?thesis
          proof (cases "cplex_getValue_expr lib c' cost")
            case (Inl e)
            with None new solve a b show ?thesis by (blast intro: in_getValue_cost)
          next
            case (Inr t)
            with None new solve a b have "fst (main lib) = Exit 0"
              by (simp add: main_def try_block_def report_def Let_def)
            then show ?thesis ..
          qed
        qed
      qed
    qed
  qed
qed

subsection \<open>Reading a solution back\<close>

lemma reads_back_build_model:
  assumes "reads_back lib c (build_model k) \<sigma>"
  shows "cplex_getValue lib c nbBus40 = Inr (\<sigma> nbBus40)"
    and "cplex_getValue lib c nbBus30 = Inr (\<sigma> nbBus30)"
    and "cplex_getValue_expr lib c cost = Inr (500 * \<sigma> nbBus40 + 400 * \<sigma> nbBus30)"
proof -
  have "set (expr_vars cost) \<subseteq> set (model_vars (build_model k))"
    by (simp add: model_vars_build expr_vars_def cost_def plus_expr_def times_var_def)
  with assms have "cplex_getValue_expr lib c cost = Inr (expr_value \<sigma> cost)"
    by (simp add: reads_back_def)
  then show "cplex_getValue_expr lib c cost = Inr (500 * \<sigma> nbBus40 + 400 * \<sigma> nbBus30)"
    by (simp only: expr_value_cost)
  from assms show "cplex_getValue lib c nbBus40 = Inr (\<sigma> nbBus40)"
    and "cplex_getValue lib c nbBus30 = Inr (\<sigma> nbBus30)"
    by (simp_all add: reads_back_def model_vars_build)
qed

subsection \<open>The example libraries\<close>

lemma correct_solver_table: "correct_solver table_cplex"
proof -
  have "reads_back table_cplex (build_model 300) (build_model 300) (buses 6 2)"
    by (simp add: reads_back_def table_cplex_def)
  moreover have "optimal (build_model 300) (buses 6 2)"
    by (simp add: optimal_300 buses_apply)
  ultimately show ?thesis
    by (auto simp add: correct_solver_def table_cplex_def)
qed





lemma main_table:
  "main table_cplex =
     (Exit 0, \<lparr>cout = result_lines 6 2 3800, cerr = [], env_ended = True, solve_calls = 1\<rparr>)"
  by (simp add: main_def try_block_def report_def put_def init_world_def result_lines_def
      table_cplex_def nbKids_def buses_apply expr_value_cost)


lemma main_failing:
  "main failing_cplex =
     (Terminate, \<lparr>cout = [Str ''Use ''], cerr = [Str ''exception: '', Exc no_solution, Endl],
        env_ended = False, solve_calls = 1\<rparr>)"
  by (simp add: main_def try_block_def report_def put_def init_world_def failing_cplex_def)

lemma main_throwing:
  "main throwing_cplex =
     (Terminate, \<lparr>cout = [], cerr = [Str ''exception: '', Exc out_of_memory, Endl],
        env_ended = False, solve_calls = 1\<rparr>)"
  by (simp add: main_def try_block_def report_def put_def init_world_def throwing_cplex_def)

lemma main_lying:
  "main lying_cplex =
     (Exit 0, \<lparr>cout = result_lines 0 0 0, cerr = [], env_ended = True, solve_calls = 1\<rparr>)"
  by (simp add: main_def try_block_def report_def put_def init_world_def result_lines_def
      lying_cplex_def)

subsection \<open>Runs that return from \<^verbatim>\<open>main\<close>\<close>



section \<open>The claims about the optimum\<close>

text \<open>
  Claim C1. For the fixed instance (300 kids, buses of 40 and 30 seats, costs 500 and 400),
  what a correct solver returns is a pair of non-negative integers \<open>a\<close> (nbBus40) and \<open>b\<close>
  (nbBus30) with \<open>40 a + 30 b \<ge> 300\<close>, whose cost \<open>500 a + 400 b\<close> is at most the cost of
  every pair of non-negative integers with enough seats. A correct solver is one whose
  successful \<^verbatim>\<open>solve\<close> leaves an optimal assignment of the extracted model to be read
  back; the model is the one \<^verbatim>\<open>main\<close> builds.
\<close>

theorem C1_correct_solver_returns_cheapest_fleet:
  assumes "correct_solver lib"
    and "IloCplex_new lib (build_model nbKids) = Inr c"
    and "cplex_solve lib c = Inr (True, c')"
  shows "\<exists>a b::nat.
      cplex_getValue lib c' nbBus40 = Inr (real a) \<and>
      cplex_getValue lib c' nbBus30 = Inr (real b) \<and>
      cplex_getValue_expr lib c' cost = Inr (real (500 * a + 400 * b)) \<and>
      300 \<le> 40 * a + 30 * b \<and>
      (\<forall>a' b'::nat. 300 \<le> 40 * a' + 30 * b' \<longrightarrow> 500 * a + 400 * b \<le> 500 * a' + 400 * b')"
proof -
  from assms obtain \<sigma> where
    opt: "optimal (build_model nbKids) \<sigma>" and rb: "reads_back lib c' (build_model nbKids) \<sigma>"
    unfolding correct_solver_def by blast
  from opt obtain a b :: nat where ab: "\<sigma> nbBus40 = real a" "\<sigma> nbBus30 = real b"
    and cap: "nbKids \<le> 40 * int a + 30 * int b"
    and min: "\<And>a' b'::nat. nbKids \<le> 40 * int a' + 30 * int b' \<Longrightarrow>
                500 * a + 400 * b \<le> 500 * a' + 400 * b'"
    unfolding optimal_build_model by blast
  have total: "500 * real a + 400 * real b = real (500 * a + 400 * b)" by simp
  from reads_back_build_model [OF rb]
  have "cplex_getValue lib c' nbBus40 = Inr (real a)"
    and "cplex_getValue lib c' nbBus30 = Inr (real b)"
    and "cplex_getValue_expr lib c' cost = Inr (real (500 * a + 400 * b))"
    unfolding ab total .
  moreover from cap have "300 \<le> 40 * a + 30 * b" by (simp only: capacity_int_nat)
  moreover have "\<forall>a' b'::nat. 300 \<le> 40 * a' + 30 * b' \<longrightarrow> 500 * a + 400 * b \<le> 500 * a' + 400 * b'"
    using min by (simp only: capacity_int_nat) blast
  ultimately show ?thesis by blast
qed

text \<open>The table solver is correct, and on the program's model it returns such a pair.\<close>

theorem C1_witness:
  "correct_solver table_cplex \<and>
   IloCplex_new table_cplex (build_model nbKids) = Inr (build_model nbKids) \<and>
   cplex_solve table_cplex (build_model nbKids) = Inr (True, build_model nbKids) \<and>
   (\<exists>a b::nat.
      cplex_getValue table_cplex (build_model nbKids) nbBus40 = Inr (real a) \<and>
      cplex_getValue table_cplex (build_model nbKids) nbBus30 = Inr (real b) \<and>
      cplex_getValue_expr table_cplex (build_model nbKids) cost = Inr (real (500 * a + 400 * b)) \<and>
      300 \<le> 40 * a + 30 * b \<and>
      (\<forall>a' b'::nat. 300 \<le> 40 * a' + 30 * b' \<longrightarrow> 500 * a + 400 * b \<le> 500 * a' + 400 * b'))"
proof -
  have new: "IloCplex_new table_cplex (build_model nbKids) = Inr (build_model nbKids)"
    by (simp add: table_cplex_def)
  have solve: "cplex_solve table_cplex (build_model nbKids) = Inr (True, build_model nbKids)"
    by (simp add: table_cplex_def nbKids_def)
  from C1_correct_solver_returns_cheapest_fleet [OF correct_solver_table new solve]
    correct_solver_table new solve
  show ?thesis by blast
qed

text \<open>
  Claim C2 as written takes no bus of 40 seats and ten of 30, at cost 4000, for an optimum of
  the instance. Six buses of 40 seats and two of 30 carry 300 kids for 3800, so the fleet of
  ten 30-seat buses does not attain the minimal cost.
\<close>

theorem C2_counterexample:
  "feasible (build_model 300) (buses 6 2) \<and>
   expr_value (buses 6 2) cost = 3800 \<and>
   expr_value (buses 0 10) cost = 4000 \<and>
   \<not> optimal (build_model 300) (buses 0 10)"
proof -
  have "(300::int) \<le> 40 * int 6 + 30 * int 2" by simp
  then have "feasible (build_model 300) (buses (real 6) (real 2))"
    unfolding feasible_build_model buses_apply by blast
  then have "feasible (build_model 300) (buses 6 2)" by simp
  then show ?thesis
    by (simp add: optimal_300 expr_value_cost buses_apply)
qed

text \<open>
  Claim C2, amended. For nbKids = 300 the fleets \<open>a = 0, b = 10\<close> (cost 4000) and
  \<open>a = 7, b = 1\<close> (cost 3900) are feasible, and the optimum of the model is \<open>a = 6, b = 2\<close>
  with cost 3800: that fleet is optimal, and every optimal assignment gives the two variables
  these values and costs 3800.
\<close>

theorem C2_optimum_is_six_and_two:
  "feasible (build_model 300) (buses 0 10) \<and> expr_value (buses 0 10) cost = 4000 \<and>
   feasible (build_model 300) (buses 7 1) \<and> expr_value (buses 7 1) cost = 3900 \<and>
   optimal (build_model 300) (buses 6 2) \<and> expr_value (buses 6 2) cost = 3800 \<and>
   (\<forall>\<sigma>. optimal (build_model 300) \<sigma> \<longrightarrow>
      \<sigma> nbBus40 = 6 \<and> \<sigma> nbBus30 = 2 \<and> expr_value \<sigma> cost = 3800)"
proof -
  have "(300::int) \<le> 40 * int 0 + 30 * int 10" by simp
  then have "feasible (build_model 300) (buses (real 0) (real 10))"
    unfolding feasible_build_model buses_apply by blast
  then have f1: "feasible (build_model 300) (buses 0 10)" by simp
  have "(300::int) \<le> 40 * int 7 + 30 * int 1" by simp
  then have "feasible (build_model 300) (buses (real 7) (real 1))"
    unfolding feasible_build_model buses_apply by blast
  then have f2: "feasible (build_model 300) (buses 7 1)" by simp
  from f1 f2 show ?thesis
    by (simp add: optimal_300 expr_value_cost buses_apply)
qed

theorem C2_witness:
  "optimal (build_model 300) (buses 6 2) \<and> buses 6 2 nbBus40 = 6 \<and> buses 6 2 nbBus30 = 2 \<and>
   expr_value (buses 6 2) cost = 3800"
  using C2_optimum_is_six_and_two by blast

text \<open>
  Claim C3. With nbKids = 0 the optimal solution of the model is \<open>a = 0, b = 0\<close> with cost 0:
  no bus at all is feasible for \<open>40 a + 30 b \<ge> 0\<close> and costs 0, no feasible assignment costs
  less than 0, and an assignment is optimal exactly when both variables are 0.
\<close>

theorem C3_no_kids_no_buses:
  "feasible (build_model 0) (buses 0 0) \<and> expr_value (buses 0 0) cost = 0 \<and>
   (\<forall>\<sigma>. feasible (build_model 0) \<sigma> \<longrightarrow> 0 \<le> expr_value \<sigma> cost) \<and>
   (\<forall>\<sigma>. optimal (build_model 0) \<sigma> \<longleftrightarrow> \<sigma> nbBus40 = 0 \<and> \<sigma> nbBus30 = 0)"
proof -
  have "optimal (build_model 0) (buses 0 0)" by (simp add: optimal_0 buses_apply)
  then have "feasible (build_model 0) (buses 0 0)" by (simp add: optimal_def)
  moreover have "expr_value (buses 0 0) cost = 0" by (simp add: expr_value_cost buses_apply)
  moreover have "0 \<le> expr_value \<sigma> cost" if "feasible (build_model 0) \<sigma>" for \<sigma>
  proof -
    from that obtain a b :: nat where "\<sigma> nbBus40 = real a" "\<sigma> nbBus30 = real b"
      unfolding feasible_build_model by blast
    then show ?thesis by (simp add: expr_value_cost)
  qed
  ultimately show ?thesis by (simp add: optimal_0)
qed

text \<open>One bus of each kind is feasible for no kids, costs more than 0 and is not optimal.\<close>

theorem C3_witness:
  "feasible (build_model 0) (buses 1 1) \<and> 0 \<le> expr_value (buses 1 1) cost \<and>
   \<not> optimal (build_model 0) (buses 1 1) \<and> optimal (build_model 0) (buses 0 0)"
proof -
  have "(0::int) \<le> 40 * int 1 + 30 * int 1" by simp
  then have "feasible (build_model 0) (buses (real 1) (real 1))"
    unfolding feasible_build_model buses_apply by blast
  then have f: "feasible (build_model 0) (buses 1 1)" by simp
  with C3_no_kids_no_buses have "0 \<le> expr_value (buses 1 1) cost" by blast
  moreover from C3_no_kids_no_buses have "\<not> optimal (build_model 0) (buses 1 1)"
    by (simp add: buses_apply)
  moreover from C3_no_kids_no_buses have "optimal (build_model 0) (buses 0 0)"
    by (simp add: buses_apply)
  ultimately show ?thesis using f by blast
qed

section \<open>The claims about the variables\<close>



section \<open>The claims about the runs\<close>

text \<open>
  Claim C4 as written says that whenever \<^verbatim>\<open>solve\<close> fails the program reports the failure,
  ends with a failure status and prints no result line. The program drops the boolean that
  \<^verbatim>\<open>solve\<close> returns (line 40) and prints unconditionally (lines 42 to 44): with a library
  whose \<^verbatim>\<open>solve\<close> returns false and whose \<^verbatim>\<open>getValue\<close> still returns, \<^verbatim>\<open>solve\<close> did
  not succeed, and the run prints three result lines, writes nothing to standard error and
  exits with status 0.
\<close>

theorem C4_counterexample:
  "\<not> solve_succeeded lying_cplex \<and>
   main lying_cplex =
     (Exit 0, \<lparr>cout = result_lines 0 0 0, cerr = [], env_ended = True, solve_calls = 1\<rparr>)"
proof -
  have "\<not> solve_succeeded lying_cplex"
    by (simp add: solve_succeeded_def lying_cplex_def)
  with main_lying show ?thesis by blast
qed

text \<open>
  Claim C4, amended. The program learns of a failure only from an exception. In every
  execution in which a call of the \<^verbatim>\<open>try\<close> block throws, the program writes the failure
  message for that exception to standard error, ends in \<^verbatim>\<open>std::terminate\<close> and does not
  print the three result lines; when \<^verbatim>\<open>solve\<close> throws, or returns and the first
  \<^verbatim>\<open>getValue\<close> throws, standard output holds no number and no line end. The three result
  lines are printed exactly when no call throws, and the exit status is 0 exactly then,
  whatever \<^verbatim>\<open>solve\<close> returned.
\<close>

theorem C4_failure_reported_when_a_call_throws:
  "(\<forall>e. raised lib e \<longrightarrow>
      fst (main lib) = Terminate \<and>
      cerr (snd (main lib)) = [Str ''exception: '', Exc e, Endl] \<and>
      (\<forall>a b t. cout (snd (main lib)) \<noteq> result_lines a b t)) \<and>
   (\<forall>c ok c' e.
      concert_throws lib = None \<and> IloCplex_new lib (build_model nbKids) = Inr c \<and>
      (cplex_solve lib c = Inl e \<or>
       cplex_solve lib c = Inr (ok, c') \<and> cplex_getValue lib c' nbBus40 = Inl e) \<longrightarrow>
      fst (main lib) = Terminate \<and>
      cerr (snd (main lib)) = [Str ''exception: '', Exc e, Endl] \<and>
      Endl \<notin> set (cout (snd (main lib))) \<and>
      (\<forall>x. Num x \<notin> set (cout (snd (main lib))))) \<and>
   ((\<exists>a b t. cout (snd (main lib)) = result_lines a b t) \<longleftrightarrow> (\<forall>e. \<not> raised lib e)) \<and>
   (fst (main lib) = Exit 0 \<longleftrightarrow> (\<forall>e. \<not> raised lib e))"
proof -
  have part: "cout (snd (main lib)) \<noteq> result_lines a b t" if "raised lib e" for e a b t
    using that
    by cases (simp_all add: main_def try_block_def report_def put_def init_world_def
        result_lines_def)
  have thrown: "fst (main lib) = Terminate \<and>
      cerr (snd (main lib)) = [Str ''exception: '', Exc e, Endl] \<and>
      (\<forall>a b t. cout (snd (main lib)) \<noteq> result_lines a b t)" if "raised lib e" for e
    using main_raised [OF that] part [OF that] by blast
  have early: "fst (main lib) = Terminate \<and>
      cerr (snd (main lib)) = [Str ''exception: '', Exc e, Endl] \<and>
      Endl \<notin> set (cout (snd (main lib))) \<and>
      (\<forall>x. Num x \<notin> set (cout (snd (main lib))))"
    if "concert_throws lib = None" and "IloCplex_new lib (build_model nbKids) = Inr c"
      and "cplex_solve lib c = Inl e \<or>
           cplex_solve lib c = Inr (ok, c') \<and> cplex_getValue lib c' nbBus40 = Inl e"
    for c ok c' e
    using that
    by (auto simp add: main_def try_block_def report_def put_def init_world_def)
  have exit: "fst (main lib) = Exit 0 \<longleftrightarrow> (\<forall>e. \<not> raised lib e)"
  proof
    assume ok: "fst (main lib) = Exit 0"
    show "\<forall>e. \<not> raised lib e"
    proof (intro allI notI)
      fix e assume "raised lib e"
      from main_raised [OF this] ok show False by simp
    qed
  next
    assume "\<forall>e. \<not> raised lib e"
    with main_cases [of lib] show "fst (main lib) = Exit 0" by blast
  qed
  have lines: "(\<exists>a b t. cout (snd (main lib)) = result_lines a b t) \<longleftrightarrow> (\<forall>e. \<not> raised lib e)"
  proof
    assume "\<exists>a b t. cout (snd (main lib)) = result_lines a b t"
    with part show "\<forall>e. \<not> raised lib e" by blast
  next
    assume "\<forall>e. \<not> raised lib e"
    with exit have "fst (main lib) = Exit 0" by blast
    from main_success [OF this] obtain a b t where
      "main lib = (Exit 0, \<lparr>cout = result_lines a b t, cerr = [], env_ended = True, solve_calls = 1\<rparr>)"
      by blast
    then have "cout (snd (main lib)) = result_lines a b t" by simp
    then show "\<exists>a b t. cout (snd (main lib)) = result_lines a b t" by blast
  qed
  from thrown early exit lines show ?thesis by blast
qed

text \<open>
  The solver that finds no solution and throws from \<^verbatim>\<open>getValue\<close>: only the first
  \<^verbatim>\<open>"Use "\<close> reaches \<^verbatim>\<open>cout\<close>. The table solver: no call throws, three lines, status 0.
\<close>

theorem C4_witness:
  "raised failing_cplex no_solution \<and>
   fst (main failing_cplex) = Terminate \<and>
   cerr (snd (main failing_cplex)) = [Str ''exception: '', Exc no_solution, Endl] \<and>
   Endl \<notin> set (cout (snd (main failing_cplex))) \<and>
   (\<forall>x. Num x \<notin> set (cout (snd (main failing_cplex)))) \<and>
   (\<forall>a b t. cout (snd (main failing_cplex)) \<noteq> result_lines a b t) \<and>
   fst (main table_cplex) = Exit 0 \<and>
   (\<forall>e. \<not> raised table_cplex e) \<and>
   (\<exists>a b t. cout (snd (main table_cplex)) = result_lines a b t)"
proof -
  note at_failing = C4_failure_reported_when_a_call_throws [of failing_cplex]
  note at_table = C4_failure_reported_when_a_call_throws [of table_cplex]
  have built: "concert_throws failing_cplex = None"
    "IloCplex_new failing_cplex (build_model nbKids) = Inr ()"
    and solve: "cplex_solve failing_cplex () = Inr (False, ())"
    and get: "cplex_getValue failing_cplex () nbBus40 = Inl no_solution"
    by (simp_all add: failing_cplex_def)
  from built solve get have r: "raised failing_cplex no_solution" by (rule in_getValue40)
  from at_failing r have "fst (main failing_cplex) = Terminate"
    and "cerr (snd (main failing_cplex)) = [Str ''exception: '', Exc no_solution, Endl]"
    and "\<forall>a b t. cout (snd (main failing_cplex)) \<noteq> result_lines a b t"
    by blast+
  moreover from at_failing built solve get
  have "Endl \<notin> set (cout (snd (main failing_cplex)))"
    and "\<forall>x. Num x \<notin> set (cout (snd (main failing_cplex)))"
    by blast+
  moreover have ok: "fst (main table_cplex) = Exit 0" by (simp add: main_table)
  moreover from at_table ok have quiet: "\<forall>e. \<not> raised table_cplex e" by blast
  moreover from at_table quiet have "\<exists>a b t. cout (snd (main table_cplex)) = result_lines a b t"
    by blast
  ultimately show ?thesis using r by blast
qed

text \<open>
  Claim C5. Every solver exception raised while the model is built or solved is caught once
  at the top level, logged to standard error, and the process then terminates with a failure
  status; nothing is retried and no result is printed after the exception: standard error
  holds exactly the handler's line for that exception, standard output is what it was when the
  exception left the \<^verbatim>\<open>try\<close> block and is not the three result lines, and \<^verbatim>\<open>solve\<close> was
  called at most once.
\<close>

theorem C5_exception_logged_once_then_terminate:
  assumes "raised lib e"
  shows "fst (main lib) = Terminate \<and>
         cerr (snd (main lib)) = [Str ''exception: '', Exc e, Endl] \<and>
         cout (snd (main lib)) = cout (snd (try_block lib init_world)) \<and>
         solve_calls (snd (main lib)) \<le> 1 \<and>
         (\<forall>a b t. cout (snd (main lib)) \<noteq> result_lines a b t)"
proof -
  have "cout (snd (main lib)) \<noteq> result_lines a b t" for a b t
    using assms
    by cases (simp_all add: main_def try_block_def report_def put_def init_world_def
        result_lines_def)
  with main_raised [OF assms] show ?thesis by blast
qed

text \<open>A \<^verbatim>\<open>solve\<close> that throws.\<close>

theorem C5_witness:
  "raised throwing_cplex out_of_memory \<and>
   main throwing_cplex =
     (Terminate, \<lparr>cout = [], cerr = [Str ''exception: '', Exc out_of_memory, Endl],
        env_ended = False, solve_calls = 1\<rparr>)"
proof -
  have "concert_throws throwing_cplex = None"
    and "IloCplex_new throwing_cplex (build_model nbKids) = Inr ()"
    and "cplex_solve throwing_cplex () = Inl out_of_memory"
    by (simp_all add: throwing_cplex_def)
  then have r: "raised throwing_cplex out_of_memory" by (rule in_solve)
  from C5_exception_logged_once_then_terminate [OF r] r show ?thesis
    by (simp add: main_throwing)
qed

text \<open>
  Claim C6 says that \<^verbatim>\<open>env.end()\<close> is invoked on every path after solving, also when the
  solver reports failure or throws. In the source \<^verbatim>\<open>env.end()\<close> is the last statement of the
  \<^verbatim>\<open>try\<close> block and the handler rethrows without it: when \<^verbatim>\<open>solve\<close> throws, and when
  \<^verbatim>\<open>solve\<close> returns false and \<^verbatim>\<open>getValue\<close> throws, the run ends with the environment not
  ended; only the run that prints all three lines ends it.
\<close>

theorem C6_env_not_ended_on_exception:
  "main throwing_cplex =
     (Terminate, \<lparr>cout = [], cerr = [Str ''exception: '', Exc out_of_memory, Endl],
        env_ended = False, solve_calls = 1\<rparr>) \<and>
   main failing_cplex =
     (Terminate, \<lparr>cout = [Str ''Use ''], cerr = [Str ''exception: '', Exc no_solution, Endl],
        env_ended = False, solve_calls = 1\<rparr>) \<and>
   main table_cplex =
     (Exit 0, \<lparr>cout = result_lines 6 2 3800, cerr = [], env_ended = True, solve_calls = 1\<rparr>)"
  by (simp only: main_throwing main_failing main_table)

text \<open>
  Claim C7. On a successful run, one in which no call raises an exception, standard output
  is exactly three lines in this order: the count of 40-seat buses, the count of 30-seat
  buses, the total cost, each the value \<^verbatim>\<open>getValue\<close> returned for it; and the process exits
  with status 0.
\<close>

theorem C7_three_lines_in_order:
  assumes "\<forall>e. \<not> raised lib e"
  shows "fst (main lib) = Exit 0 \<and>
         (\<exists>c ok c' a b t.
            IloCplex_new lib (build_model nbKids) = Inr c \<and>
            cplex_solve lib c = Inr (ok, c') \<and>
            cplex_getValue lib c' nbBus40 = Inr a \<and>
            cplex_getValue lib c' nbBus30 = Inr b \<and>
            cplex_getValue_expr lib c' cost = Inr t \<and>
            cout (snd (main lib)) =
              [Str ''Use '', Num a, Str '' buses of type 40'', Endl,
               Str ''Use '', Num b, Str '' buses of type 30'', Endl,
               Str ''Total cost: '', Num t, Endl])"
proof -
  from main_cases [of lib] assms have ok: "fst (main lib) = Exit 0" by blast
  from main_success [OF ok] show ?thesis
    unfolding result_lines_def using ok by fastforce
qed

text \<open>The table solver raises nothing; the run prints 6, 2 and 3800.\<close>

theorem C7_witness:
  "(\<forall>e. \<not> raised table_cplex e) \<and> fst (main table_cplex) = Exit 0 \<and>
   cout (snd (main table_cplex)) =
     [Str ''Use '', Num 6, Str '' buses of type 40'', Endl,
      Str ''Use '', Num 2, Str '' buses of type 30'', Endl,
      Str ''Total cost: '', Num 3800, Endl]"
proof -
  have quiet: "\<forall>e. \<not> raised table_cplex e"
  proof (intro allI notI)
    fix e assume "raised table_cplex e"
    from main_raised [OF this] show False by (simp add: main_table)
  qed
  from C7_three_lines_in_order [OF quiet] quiet show ?thesis
    by (simp add: main_table result_lines_def)
qed





end
